theory Spec2Isabelle
  imports Complex_Main "HOL-Library.Monad_Syntax" "HOL-Library.AList"
begin

section \<open>Values of the demo script\<close>

text \<open>
  The script \<^verbatim>\<open>src/demo.py\<close> builds five tables of synthetic software metrics and a
  metadata document about them. The embedding keeps the data as the script has it:

  \<^item> a one-dimensional numpy array is a list; the metric columns and the label column
    hold machine integers and are \<open>int list\<close>, the score and probability arrays hold
    floating-point numbers and are \<open>real list\<close>;
  \<^item> the dictionary \<^verbatim>\<open>data\<close> and the \<^verbatim>\<open>DataFrame\<close> made from it are association
    lists from column name to column, in insertion order (the order of the columns);
  \<^item> an exception (\<^verbatim>\<open>KeyError\<close> of a dictionary lookup, \<^verbatim>\<open>ValueError\<close> of a shape
    mismatch) is the result \<open>None\<close>;
  \<^item> the global state of \<^verbatim>\<open>np.random\<close> is passed in and handed back.

  Floating-point arithmetic is read over the real numbers: \<open>/\<close>, \<open>+\<close> and \<open>exp\<close> below are
  the exact operations, the roundings of the 64-bit format are not part of the model.
  The one special value the script can meet, the mean of an empty column, is kept.
\<close>

type_synonym table = "(string \<times> int list) list"

datatype pyfloat = NaN | Finite real

subsection \<open>The pseudo-random generator\<close>

text \<open>
  \<^verbatim>\<open>np.random\<close> is a library, not code of the script, so it is a parameter: a state type
  \<open>'s\<close> with the three operations the script calls. \<open>rng_seed k\<close> is the state after
  \<^verbatim>\<open>np.random.seed(k)\<close>; \<open>rng_randint lo hi n\<close> is \<^verbatim>\<open>np.random.randint(lo, hi, n)\<close> and
  \<open>rng_binomial m ps n\<close> is \<^verbatim>\<open>np.random.binomial(m, ps, n)\<close>, each returning the array
  drawn and the state left behind.
\<close>

record 's np_random =
  rng_seed :: "int \<Rightarrow> 's"
  rng_randint :: "int \<Rightarrow> int \<Rightarrow> nat \<Rightarrow> 's \<Rightarrow> int list \<times> 's"
  rng_binomial :: "nat \<Rightarrow> real list \<Rightarrow> nat \<Rightarrow> 's \<Rightarrow> int list \<times> 's"

text \<open>
  What the library documents of the two draws, as far as the script relies on it:
  \<^verbatim>\<open>randint(lo, hi, n)\<close> with \<open>lo < hi\<close> returns \<open>n\<close> integers of \<open>[lo, hi)\<close>, and
  \<^verbatim>\<open>binomial(1, ps, n)\<close> with \<open>n\<close> probabilities of \<open>[0, 1]\<close> returns \<open>n\<close> counts of
  successes of one trial, each 0 or 1.
\<close>

definition rng_ok :: "'s np_random \<Rightarrow> bool" where
  "rng_ok rng \<longleftrightarrow>
     (\<forall>lo hi n s. lo < hi \<longrightarrow>
        length (fst (rng_randint rng lo hi n s)) = n \<and>
        (\<forall>x \<in> set (fst (rng_randint rng lo hi n s)). lo \<le> x \<and> x < hi)) \<and>
     (\<forall>ps n s. length ps = n \<and> (\<forall>p \<in> set ps. 0 \<le> p \<and> p \<le> 1) \<longrightarrow>
        length (fst (rng_binomial rng 1 ps n s)) = n \<and>
        (\<forall>x \<in> set (fst (rng_binomial rng 1 ps n s)). x = 0 \<or> x = 1))"

text \<open>
  A small generator that meets the contract, used to run the model on concrete input:
  the state is a counter, an integer draw walks through the range from the counter on,
  and a trial succeeds when its probability is above one half.
\<close>

definition counter_rng :: "nat np_random" where
  "counter_rng =
     \<lparr>rng_seed = (\<lambda>k. nat \<bar>k\<bar>),
      rng_randint = (\<lambda>lo hi n s. (map (\<lambda>i. lo + int (s + i) mod (hi - lo)) [0..<n], s + n)),
      rng_binomial = (\<lambda>m ps n s. (map (\<lambda>p. if 1 / 2 < p then int m else 0) (take n ps), s + n))\<rparr>"

subsection \<open>Dictionaries, arrays and frames\<close>

definition getitem :: "('k \<times> 'v) list \<Rightarrow> 'k \<Rightarrow> 'v option" where
  \<comment> \<open>\<^verbatim>\<open>d[k]\<close>: \<open>None\<close> is the \<^verbatim>\<open>KeyError\<close>.\<close>
  "getitem d k = map_of d k"

definition setitem :: "('k \<times> 'v) list \<Rightarrow> 'k \<Rightarrow> 'v \<Rightarrow> ('k \<times> 'v) list" where
  \<comment> \<open>\<^verbatim>\<open>d[k] = v\<close>: a present key keeps its place, a new key goes last.\<close>
  "setitem d k v = AList.update k v d"

definition true_divide :: "int list \<Rightarrow> int \<Rightarrow> real list" where
  \<comment> \<open>\<^verbatim>\<open>a / c\<close> of an integer array and an integer scalar.\<close>
  "true_divide a c = map (\<lambda>x. real_of_int x / real_of_int c) a"

definition add_arr :: "real list \<Rightarrow> real list \<Rightarrow> real list option" where
  \<comment> \<open>\<^verbatim>\<open>a + b\<close> of two arrays: elementwise on equal shapes, a one-element array is
      broadcast, any other pair of shapes is a \<^verbatim>\<open>ValueError\<close>.\<close>
  "add_arr a b =
     (if length a = length b then Some (map2 (+) a b)
      else if length a = 1 then Some (map (\<lambda>y. hd a + y) b)
      else if length b = 1 then Some (map (\<lambda>x. x + hd b) a)
      else None)"

definition DataFrame :: "table \<Rightarrow> table option" where
  \<comment> \<open>\<^verbatim>\<open>pd.DataFrame(data)\<close>: the arrays must all have one length.\<close>
  "DataFrame data =
     (case data of
        [] \<Rightarrow> Some []
      | c # cs \<Rightarrow>
          if list_all (\<lambda>p. length (snd p) = length (snd c)) cs then Some data else None)"

definition nrows :: "table \<Rightarrow> nat" where
  \<comment> \<open>\<^verbatim>\<open>len(df)\<close>, \<^verbatim>\<open>df.shape[0]\<close>.\<close>
  "nrows df = (case df of [] \<Rightarrow> 0 | c # _ \<Rightarrow> length (snd c))"

definition ncols :: "table \<Rightarrow> nat" where
  \<comment> \<open>\<^verbatim>\<open>len(df.columns)\<close>, \<^verbatim>\<open>df.shape[1]\<close>.\<close>
  "ncols df = length df"

definition columns_of :: "table \<Rightarrow> string list" where
  \<comment> \<open>\<^verbatim>\<open>df.columns.tolist()\<close>.\<close>
  "columns_of df = map fst df"

definition isnull :: "int \<Rightarrow> bool" where
  \<comment> \<open>A cell of an integer column is never null.\<close>
  "isnull x = False"

definition missing_counts :: "table \<Rightarrow> (string \<times> nat) list" where
  \<comment> \<open>\<^verbatim>\<open>df.isnull().sum().to_dict()\<close>.\<close>
  "missing_counts df = map (\<lambda>(c, xs). (c, length (filter isnull xs))) df"

definition series_mean :: "int list \<Rightarrow> pyfloat" where
  \<comment> \<open>\<^verbatim>\<open>Series.mean()\<close>: the mean of no values is NaN.\<close>
  "series_mean xs =
     (if xs = [] then NaN else Finite (real_of_int (sum_list xs) / real (length xs)))"

fun fsum :: "pyfloat list \<Rightarrow> pyfloat" where
  "fsum [] = Finite 0"
| "fsum (NaN # xs) = NaN"
| "fsum (Finite x # xs) = (case fsum xs of NaN \<Rightarrow> NaN | Finite s \<Rightarrow> Finite (x + s))"

definition np_mean :: "pyfloat list \<Rightarrow> pyfloat" where
  \<comment> \<open>\<^verbatim>\<open>np.mean\<close> of a list of floats.\<close>
  "np_mean xs =
     (if xs = [] then NaN
      else case fsum xs of NaN \<Rightarrow> NaN | Finite s \<Rightarrow> Finite (s / real (length xs)))"

subsection \<open>Formatting\<close>

fun str_nat :: "nat \<Rightarrow> string" where
  "str_nat n =
     (if n < 10 then [''0123456789'' ! n]
      else str_nat (n div 10) @ [''0123456789'' ! (n mod 10)])"

declare str_nat.simps [simp del]

definition round_half_even :: "real \<Rightarrow> int" where
  "round_half_even y =
     (let f = \<lfloor>y\<rfloor>; r = y - of_int f
      in if r < 1 / 2 then f else if 1 / 2 < r then f + 1 else if even f then f else f + 1)"

definition format_pct :: "pyfloat \<Rightarrow> string" where
  \<comment> \<open>\<^verbatim>\<open>f"{x:.2%}"\<close>: one hundred times the value with two decimals and a percent sign.
      The exact real is rounded, half to even; Python rounds the 64-bit product, which
      can differ in the last digit near a tie. A mean \<open>k / 1000\<close> is far from every tie.\<close>
  "format_pct x =
     (case x of
        NaN \<Rightarrow> ''nan%''
      | Finite v \<Rightarrow>
          (let h = round_half_even (v * 100 * 100); m = nat \<bar>h\<bar>
           in (if v < 0 then ''-'' else '''') @ str_nat (m div 100) @ ''.'' @
              [''0123456789'' ! (m mod 100 div 10), ''0123456789'' ! (m mod 10)] @ ''%''))"

definition upper :: "string \<Rightarrow> string" where
  \<comment> \<open>\<^verbatim>\<open>str.upper()\<close> on ASCII text.\<close>
  "upper s =
     map (\<lambda>c. let k = (of_char c :: nat) in if 97 \<le> k \<and> k \<le> 122 then char_of (k - 32) else c) s"

section \<open>The generator\<close>

definition n_samples :: nat where
  "n_samples = 1000"

text \<open>
  Lines 21 to 42 of the script: the dictionary literal draws the twenty metric columns
  one after the other, each from the state the last draw left.
\<close>

definition sample_metrics :: "'s np_random \<Rightarrow> 's \<Rightarrow> table \<times> 's" where
  "sample_metrics rng g0 =
     (let (loc, g1) = rng_randint rng 10 10000 n_samples g0;
          (v_g, g2) = rng_randint rng 1 50 n_samples g1;
          (ev_g, g3) = rng_randint rng 1 100 n_samples g2;
          (iv_g, g4) = rng_randint rng 1 30 n_samples g3;
          (n, g5) = rng_randint rng 5 500 n_samples g4;
          (v, g6) = rng_randint rng 10 2000 n_samples g5;
          (d, g7) = rng_randint rng 1 100 n_samples g6;
          (i, g8) = rng_randint rng 1 50 n_samples g7;
          (e, g9) = rng_randint rng 50 50000 n_samples g8;
          (b, g10) = rng_randint rng 1 1000 n_samples g9;
          (t, g11) = rng_randint rng 1 3000 n_samples g10;
          (lOCode, g12) = rng_randint rng 5 8000 n_samples g11;
          (lOComment, g13) = rng_randint rng 0 2000 n_samples g12;
          (lOBlank, g14) = rng_randint rng 0 1000 n_samples g13;
          (lOCodeAndComment, g15) = rng_randint rng 0 100 n_samples g14;
          (uniq_Op, g16) = rng_randint rng 1 50 n_samples g15;
          (uniq_Opnd, g17) = rng_randint rng 1 100 n_samples g16;
          (total_Op, g18) = rng_randint rng 10 1000 n_samples g17;
          (total_Opnd, g19) = rng_randint rng 10 2000 n_samples g18;
          (branchCount, g20) = rng_randint rng 0 200 n_samples g19
      in ([(''loc'', loc), (''v_g'', v_g), (''ev_g'', ev_g), (''iv_g'', iv_g), (''n'', n),
           (''v'', v), (''d'', d), (''i'', i), (''e'', e), (''b'', b), (''t'', t),
           (''lOCode'', lOCode), (''lOComment'', lOComment), (''lOBlank'', lOBlank),
           (''lOCodeAndComment'', lOCodeAndComment), (''uniq_Op'', uniq_Op),
           (''uniq_Opnd'', uniq_Opnd), (''total_Op'', total_Op),
           (''total_Opnd'', total_Opnd), (''branchCount'', branchCount)], g20))"

text \<open>Lines 46 to 51: the score array, read from four columns of the dictionary.\<close>

definition complexity_score :: "table \<Rightarrow> real list option" where
  "complexity_score data = do {
     v_g \<leftarrow> getitem data ''v_g'';
     ev_g \<leftarrow> getitem data ''ev_g'';
     s1 \<leftarrow> add_arr (true_divide v_g 50) (true_divide ev_g 100);
     d \<leftarrow> getitem data ''d'';
     s2 \<leftarrow> add_arr s1 (true_divide d 100);
     loc \<leftarrow> getitem data ''loc'';
     add_arr s2 (true_divide loc 10000)
   }"

text \<open>Line 54: the probability array, elementwise from the score array.\<close>

definition defect_prob :: "real list \<Rightarrow> real list" where
  "defect_prob score = map (\<lambda>s. 1 / (1 + exp (- 2 * (s - 0.5)))) score"

definition create_sample_data :: "'s np_random \<Rightarrow> 's \<Rightarrow> (table \<times> 's) option" where
  "create_sample_data rng g =
     (let g0 = rng_seed rng 42;
          (data, g1) = sample_metrics rng g0
      in do {
        score \<leftarrow> complexity_score data;
        let (defects, g2) = rng_binomial rng 1 (defect_prob score) n_samples g1;
        df \<leftarrow> DataFrame (setitem data ''defects'' defects);
        Some (df, g2)
      })"

section \<open>The orchestrator\<close>

text \<open>
  The metadata document and its entries, as the dictionaries the script builds. The
  entry \<^verbatim>\<open>data_types\<close> is left out: its strings name the integer type of the numpy build,
  and nothing below reads them. Directories, files and the progress lines on standard
  output are outside the model; the three lines of the summary block are in it.
\<close>

record file_info =
  filename :: string
  rows :: nat
  columns :: nat
  column_names :: "string list"
  missing_values :: "(string \<times> nat) list"
  defect_rate :: string
  description :: string

record metadata =
  dataset_name :: string
  source :: string
  about :: string
  files :: "file_info list"

record 's demo_run =
  datasets :: "(string \<times> table) list"
  metadata_info :: metadata
  total_samples :: nat
  avg_defect_rate :: pyfloat
  summary_lines :: "string list"
  rng_state :: 's

text \<open>Lines 103 to 112: the entry of one dataset.\<close>

definition make_file_info :: "string \<Rightarrow> table \<Rightarrow> file_info option" where
  "make_file_info name df = do {
     defects \<leftarrow> getitem df ''defects'';
     Some \<lparr>filename = name @ ''.csv'',
           rows = nrows df,
           columns = ncols df,
           column_names = columns_of df,
           missing_values = missing_counts df,
           defect_rate = format_pct (series_mean defects),
           description =
             ''Sample NASA '' @ upper name @ '' dataset with '' @ str_nat (nrows df) @
             '' samples''\<rparr>
   }"

text \<open>Lines 102 to 113: the loop that appends one entry per dataset.\<close>

fun append_file_infos :: "(string \<times> table) list \<Rightarrow> file_info list \<Rightarrow> file_info list option" where
  "append_file_infos [] acc = Some acc"
| "append_file_infos ((name, df) # rest) acc = do {
     file_info \<leftarrow> make_file_info name df;
     append_file_infos rest (acc @ [file_info])
   }"

text \<open>Line 126: the list of the datasets' defect rates.\<close>

fun defect_means :: "(string \<times> table) list \<Rightarrow> pyfloat list option" where
  "defect_means [] = Some []"
| "defect_means ((name, df) # rest) = do {
     defects \<leftarrow> getitem df ''defects'';
     ms \<leftarrow> defect_means rest;
     Some (series_mean defects # ms)
   }"

definition simulate_data_processing :: "'s np_random \<Rightarrow> 's \<Rightarrow> 's demo_run option" where
  "simulate_data_processing rng g = do {
     (kc1, g1) \<leftarrow> create_sample_data rng g;
     (kc2, g2) \<leftarrow> create_sample_data rng g1;
     (pc1, g3) \<leftarrow> create_sample_data rng g2;
     (pc2, g4) \<leftarrow> create_sample_data rng g3;
     (cm1, g5) \<leftarrow> create_sample_data rng g4;
     let datasets = [(''kc1'', kc1), (''kc2'', kc2), (''pc1'', pc1), (''pc2'', pc2),
                     (''cm1'', cm1)];
     infos \<leftarrow> append_file_infos datasets [];
     let metadata_info =
       \<lparr>dataset_name = ''NASA Software Defect Prediction (Demo Data)'',
        source = ''Generated sample data for demonstration'',
        about = ''Sample NASA-style software defect prediction datasets'',
        files = infos\<rparr>;
     let total_samples = sum_list (map (\<lambda>(name, df). nrows df) datasets);
     means \<leftarrow> defect_means datasets;
     let avg_defect_rate = np_mean means;
     Some \<lparr>datasets = datasets,
           metadata_info = metadata_info,
           total_samples = total_samples,
           avg_defect_rate = avg_defect_rate,
           summary_lines =
             [''Total datasets: '' @ str_nat (length datasets),
              ''Total samples: '' @ str_nat total_samples,
              ''Average defect rate: '' @ format_pct avg_defect_rate],
           rng_state = g5\<rparr>
   }"

section \<open>Specification predicates\<close>

definition column_within :: "table \<Rightarrow> string \<Rightarrow> int \<Rightarrow> int \<Rightarrow> bool" where
  \<comment> \<open>The table has the column, and every value of it lies in \<open>[lo, hi)\<close>.\<close>
  "column_within df c lo hi =
     (case getitem df c of None \<Rightarrow> False | Some xs \<Rightarrow> list_all (\<lambda>x. lo \<le> x \<and> x < hi) xs)"

section \<open>Properties\<close>

subsection \<open>The model on small inputs\<close>

text \<open>
  A few evaluations that fix the reading of the definitions: the score of two rows, a
  missing key, the probability at the centre of the logistic function, a frame whose
  arrays differ in length, assignment to a present and to a new key, and two draws of
  the counter generator.
\<close>

lemma complexity_score_example:
  "complexity_score [(''loc'', [5000, 10]), (''v_g'', [25, 1]), (''ev_g'', [50, 1]), (''d'', [50, 1])]
     = Some [2, 41 / 1000]"
  by (simp add: complexity_score_def getitem_def add_arr_def true_divide_def)

lemma complexity_score_KeyError: "complexity_score [(''loc'', [5000])] = None"
  by (simp add: complexity_score_def getitem_def)

lemma defect_prob_example: "defect_prob [1 / 2] = [1 / 2]"
  by (simp add: defect_prob_def)

lemma DataFrame_ValueError: "DataFrame [(''a'', [1, 2]), (''b'', [1])] = None"
  by (simp add: DataFrame_def)

lemma setitem_example:
  "setitem [(''a'', [1::int]), (''b'', [2])] ''a'' [3] = [(''a'', [3]), (''b'', [2])] \<and>
   setitem [(''a'', [1::int]), (''b'', [2])] ''c'' [3] = [(''a'', [1]), (''b'', [2]), (''c'', [3])]"
  by (simp add: setitem_def)

lemma counter_rng_example:
  "rng_randint counter_rng 10 10000 3 42 = ([52, 53, 54], 45) \<and>
   rng_binomial counter_rng 1 [1 / 4, 3 / 4] 2 45 = ([0, 1], 47)"
  by (simp add: counter_rng_def upt_rec)

subsection \<open>The library contract\<close>


lemma randint_length: "rng_ok rng \<Longrightarrow> lo < hi \<Longrightarrow> length (fst (rng_randint rng lo hi n s)) = n"
  unfolding rng_ok_def by blast

lemma randint_range: "rng_ok rng \<Longrightarrow> lo < hi \<Longrightarrow> x \<in> set (fst (rng_randint rng lo hi n s)) \<Longrightarrow> lo \<le> x \<and> x < hi"
  unfolding rng_ok_def by blast

lemma binomial_length:
  "rng_ok rng \<Longrightarrow> length ps = n \<Longrightarrow> \<forall>p \<in> set ps. 0 \<le> p \<and> p \<le> 1 \<Longrightarrow> length (fst (rng_binomial rng 1 ps n s)) = n"
  unfolding rng_ok_def by blast

lemma binomial_range:
  "rng_ok rng \<Longrightarrow> length ps = n \<Longrightarrow> \<forall>p \<in> set ps. 0 \<le> p \<and> p \<le> 1 \<Longrightarrow> x \<in> set (fst (rng_binomial rng 1 ps n s)) \<Longrightarrow> x = 0 \<or> x = 1"
  unfolding rng_ok_def by blast

lemma counter_rng_ok: "rng_ok counter_rng"
proof -
  have a: "lo \<le> lo + k mod (hi - lo) \<and> lo + k mod (hi - lo) < hi" if "lo < hi" for lo hi k :: int
  proof -
    from that have "0 < hi - lo" by simp
    then have "0 \<le> k mod (hi - lo)" "k mod (hi - lo) < hi - lo"
      by (rule pos_mod_sign, rule pos_mod_bound)
    then show ?thesis by linarith
  qed
  show ?thesis
    unfolding rng_ok_def counter_rng_def using a by auto
qed

lemma columns_sample_metrics:
  "map fst (fst (sample_metrics rng g)) =
     [''loc'', ''v_g'', ''ev_g'', ''iv_g'', ''n'', ''v'', ''d'', ''i'', ''e'', ''b'', ''t'',
      ''lOCode'', ''lOComment'', ''lOBlank'', ''lOCodeAndComment'', ''uniq_Op'',
      ''uniq_Opnd'', ''total_Op'', ''total_Opnd'', ''branchCount'']"
  by (simp add: sample_metrics_def Let_def split_beta)

lemma lengths_sample_metrics:
  assumes "rng_ok rng"
  shows "list_all (\<lambda>p. length (snd p) = n_samples) (fst (sample_metrics rng g))"
  by (simp add: sample_metrics_def Let_def split_beta randint_length [OF assms])

lemma update_fresh: "k \<notin> fst ` set d \<Longrightarrow> AList.update k v d = d @ [(k, v)]"
  by (induction d) auto

lemma setitem_defects:
  "setitem (fst (sample_metrics rng g)) ''defects'' xs = fst (sample_metrics rng g) @ [(''defects'', xs)]"
proof -
  have "''defects'' \<notin> set (map fst (fst (sample_metrics rng g)))"
    unfolding columns_sample_metrics by simp
  then show ?thesis
    unfolding setitem_def by (intro update_fresh) simp
qed

lemma getitem_append_old:
  "k \<in> fst ` set d \<Longrightarrow> getitem (d @ e) k = getitem d k"
  by (auto simp: getitem_def map_add_def split: option.splits dest: map_of_SomeD weak_map_of_SomeI)

lemma getitem_append_new:
  "k \<notin> fst ` set d \<Longrightarrow> getitem (d @ [(k, v)]) k = Some v"
proof -
  assume "k \<notin> fst ` set d"
  then have "map_of d k = None" by (simp add: map_of_eq_None_iff)
  then show ?thesis by (simp add: getitem_def map_add_def)
qed

lemma getitem_length:
  "list_all (\<lambda>p. length (snd p) = n) d \<Longrightarrow> getitem d k = Some xs \<Longrightarrow> length xs = n"
proof -
  assume a: "list_all (\<lambda>p. length (snd p) = n) d" and b: "getitem d k = Some xs"
  from b have "(k, xs) \<in> set d" unfolding getitem_def by (rule map_of_SomeD)
  with a have "length (snd (k, xs)) = n" unfolding list_all_iff by blast
  then show ?thesis by simp
qed

lemma getitem_Some_if_key:
  "k \<in> set (map fst d) \<Longrightarrow> \<exists>xs. getitem d k = Some xs"
  unfolding getitem_def by (metis map_of_eq_None_iff not_Some_eq set_map)

lemma complexity_score_eq:
  assumes "getitem data ''v_g'' = Some v_g" "getitem data ''ev_g'' = Some ev_g"
    "getitem data ''d'' = Some d" "getitem data ''loc'' = Some loc"
    "length v_g = k" "length ev_g = k" "length d = k" "length loc = k"
  shows "complexity_score data =
     Some (map (\<lambda>i. real_of_int (v_g ! i) / 50 + real_of_int (ev_g ! i) / 100 +
                    real_of_int (d ! i) / 100 + real_of_int (loc ! i) / 10000) [0..<k])"
  using assms
  by (auto simp: complexity_score_def add_arr_def true_divide_def intro!: nth_equalityI)

lemma defect_prob_bounds: "p \<in> set (defect_prob s) \<Longrightarrow> 0 < p \<and> p < 1"
proof -
  assume "p \<in> set (defect_prob s)"
  then obtain x where p: "p = 1 / (1 + exp x)"
    unfolding defect_prob_def by auto
  have e: "0 < exp x" by simp
  then have "0 < 1 + exp x" by linarith
  with e show ?thesis unfolding p by (simp add: field_simps)
qed


lemma DataFrame_same_length:
  "list_all (\<lambda>p. length (snd p) = n) tbl \<Longrightarrow> DataFrame tbl = Some tbl"
  by (cases tbl) (auto simp: DataFrame_def list_all_iff)

lemma length_defect_prob: "length (defect_prob s) = length s"
  by (simp add: defect_prob_def)

lemma create_sample_data_ok:
  assumes ok: "rng_ok rng"
  obtains data g1 v_g ev_g d loc score defects g2 where
    "sample_metrics rng (rng_seed rng 42) = (data, g1)"
    "getitem data ''v_g'' = Some v_g" "getitem data ''ev_g'' = Some ev_g"
    "getitem data ''d'' = Some d" "getitem data ''loc'' = Some loc"
    "complexity_score data = Some score"
    "score = map (\<lambda>i. real_of_int (v_g ! i) / 50 + real_of_int (ev_g ! i) / 100 +
                    real_of_int (d ! i) / 100 + real_of_int (loc ! i) / 10000) [0..<n_samples]"
    "rng_binomial rng 1 (defect_prob score) n_samples g1 = (defects, g2)"
    "length defects = n_samples"
    "\<forall>x \<in> set defects. x = 0 \<or> x = 1"
    "create_sample_data rng g = Some (data @ [(''defects'', defects)], g2)"
proof -
  obtain data g1 where sm: "sample_metrics rng (rng_seed rng 42) = (data, g1)"
    by (cases "sample_metrics rng (rng_seed rng 42)")
  then have data: "data = fst (sample_metrics rng (rng_seed rng 42))" by simp
  have cols: "map fst data = [''loc'', ''v_g'', ''ev_g'', ''iv_g'', ''n'', ''v'', ''d'', ''i'', ''e'', ''b'', ''t'',
      ''lOCode'', ''lOComment'', ''lOBlank'', ''lOCodeAndComment'', ''uniq_Op'',
      ''uniq_Opnd'', ''total_Op'', ''total_Opnd'', ''branchCount'']"
    unfolding data by (rule columns_sample_metrics)
  have lens: "list_all (\<lambda>p. length (snd p) = n_samples) data"
    unfolding data by (rule lengths_sample_metrics [OF ok])
  obtain v_g where v_g: "getitem data ''v_g'' = Some v_g"
    using getitem_Some_if_key [of "''v_g''" data] unfolding cols by auto
  obtain ev_g where ev_g: "getitem data ''ev_g'' = Some ev_g"
    using getitem_Some_if_key [of "''ev_g''" data] unfolding cols by auto
  obtain d where d: "getitem data ''d'' = Some d"
    using getitem_Some_if_key [of "''d''" data] unfolding cols by auto
  obtain loc where loc: "getitem data ''loc'' = Some loc"
    using getitem_Some_if_key [of "''loc''" data] unfolding cols by auto
  note len = getitem_length [OF lens]
  define score where "score = map (\<lambda>i. real_of_int (v_g ! i) / 50 + real_of_int (ev_g ! i) / 100 +
                    real_of_int (d ! i) / 100 + real_of_int (loc ! i) / 10000) [0..<n_samples]"
  have score: "complexity_score data = Some score"
    unfolding score_def
    by (rule complexity_score_eq [OF v_g ev_g d loc len [OF v_g] len [OF ev_g] len [OF d] len [OF loc]])
  have ls: "length (defect_prob score) = n_samples"
    by (simp add: length_defect_prob score_def)
  have bs: "\<forall>p \<in> set (defect_prob score). 0 \<le> p \<and> p \<le> 1"
    using defect_prob_bounds [of _ score] by (auto simp: less_imp_le)
  obtain defects g2 where bin: "rng_binomial rng 1 (defect_prob score) n_samples g1 = (defects, g2)"
    by (cases "rng_binomial rng 1 (defect_prob score) n_samples g1")
  then have defects: "defects = fst (rng_binomial rng 1 (defect_prob score) n_samples g1)" by simp
  have ld: "length defects = n_samples"
    unfolding defects by (rule binomial_length [OF ok ls bs])
  have rd: "\<forall>x \<in> set defects. x = 0 \<or> x = 1"
    unfolding defects using binomial_range [OF ok ls bs] by blast
  have si: "setitem data ''defects'' defects = data @ [(''defects'', defects)]"
    unfolding data by (rule setitem_defects)
  have "list_all (\<lambda>p. length (snd p) = n_samples) (data @ [(''defects'', defects)])"
    using lens ld by simp
  then have df: "DataFrame (data @ [(''defects'', defects)]) = Some (data @ [(''defects'', defects)])"
    by (rule DataFrame_same_length)
  have "create_sample_data rng g = Some (data @ [(''defects'', defects)], g2)"
    unfolding create_sample_data_def by (simp add: sm score bin si df del: One_nat_def)
  with sm v_g ev_g d loc score score_def bin ld rd show ?thesis
    by (rule that)
qed


lemma randint_within:
  "rng_ok rng \<Longrightarrow> lo < hi \<Longrightarrow> list_all (\<lambda>x. lo \<le> x \<and> x < hi) (fst (rng_randint rng lo hi n s))"
  unfolding list_all_iff rng_ok_def by blast

lemma within_append:
  "column_within d c lo hi \<Longrightarrow> column_within (d @ e) c lo hi"
  by (auto simp: column_within_def getitem_def map_add_def split: option.splits)

lemma sample_metrics_within:
  assumes ok: "rng_ok rng"
  shows "column_within (fst (sample_metrics rng g)) ''loc'' 10 10000"
    and "column_within (fst (sample_metrics rng g)) ''v_g'' 1 50"
    and "column_within (fst (sample_metrics rng g)) ''ev_g'' 1 100"
    and "column_within (fst (sample_metrics rng g)) ''iv_g'' 1 30"
    and "column_within (fst (sample_metrics rng g)) ''n'' 5 500"
    and "column_within (fst (sample_metrics rng g)) ''v'' 10 2000"
    and "column_within (fst (sample_metrics rng g)) ''d'' 1 100"
    and "column_within (fst (sample_metrics rng g)) ''i'' 1 50"
    and "column_within (fst (sample_metrics rng g)) ''e'' 50 50000"
    and "column_within (fst (sample_metrics rng g)) ''b'' 1 1000"
    and "column_within (fst (sample_metrics rng g)) ''t'' 1 3000"
    and "column_within (fst (sample_metrics rng g)) ''lOCode'' 5 8000"
    and "column_within (fst (sample_metrics rng g)) ''lOComment'' 0 2000"
    and "column_within (fst (sample_metrics rng g)) ''lOBlank'' 0 1000"
    and "column_within (fst (sample_metrics rng g)) ''lOCodeAndComment'' 0 100"
    and "column_within (fst (sample_metrics rng g)) ''uniq_Op'' 1 50"
    and "column_within (fst (sample_metrics rng g)) ''uniq_Opnd'' 1 100"
    and "column_within (fst (sample_metrics rng g)) ''total_Op'' 10 1000"
    and "column_within (fst (sample_metrics rng g)) ''total_Opnd'' 10 2000"
    and "column_within (fst (sample_metrics rng g)) ''branchCount'' 0 200"
  by (simp_all add: column_within_def getitem_def sample_metrics_def Let_def split_beta
      randint_within [OF ok])

subsection \<open>The table of one call and the record of one run\<close>

lemma create_sample_data_indep: "create_sample_data rng g = create_sample_data rng g'"
  by (simp add: create_sample_data_def)

lemma generated_table:
  assumes ok: "rng_ok rng"
  obtains df g2 defects where
    "\<forall>g. create_sample_data rng g = Some (df, g2)"
    "getitem df ''defects'' = Some defects"
    "length defects = 1000"
    "\<forall>x \<in> set defects. x = 0 \<or> x = 1"
    "nrows df = 1000"
    "ncols df = 21"
    "columns_of df =
       [''loc'', ''v_g'', ''ev_g'', ''iv_g'', ''n'', ''v'', ''d'', ''i'', ''e'', ''b'', ''t'',
        ''lOCode'', ''lOComment'', ''lOBlank'', ''lOCodeAndComment'', ''uniq_Op'',
        ''uniq_Opnd'', ''total_Op'', ''total_Opnd'', ''branchCount'', ''defects'']"
proof -
  from ok obtain data g1 defects g2 where
    sm: "sample_metrics rng (rng_seed rng 42) = (data, g1)" and
    ld: "length defects = n_samples" and
    rd: "\<forall>x \<in> set defects. x = 0 \<or> x = 1" and
    r: "create_sample_data rng undefined = Some (data @ [(''defects'', defects)], g2)"
    by (rule create_sample_data_ok)
  from sm have data: "data = fst (sample_metrics rng (rng_seed rng 42))" by simp
  have cols: "map fst data = [''loc'', ''v_g'', ''ev_g'', ''iv_g'', ''n'', ''v'', ''d'', ''i'', ''e'', ''b'', ''t'',
      ''lOCode'', ''lOComment'', ''lOBlank'', ''lOCodeAndComment'', ''uniq_Op'',
      ''uniq_Opnd'', ''total_Op'', ''total_Opnd'', ''branchCount'']"
    unfolding data by (rule columns_sample_metrics)
  have lens: "list_all (\<lambda>p. length (snd p) = n_samples) data"
    unfolding data by (rule lengths_sample_metrics [OF ok])
  let ?df = "data @ [(''defects'', defects)]"
  have 1: "create_sample_data rng g = Some (?df, g2)" for g
    using r create_sample_data_indep [of rng g undefined] by simp
  have "''defects'' \<notin> set (map fst data)" unfolding cols by simp
  then have 2: "getitem ?df ''defects'' = Some defects"
    by (intro getitem_append_new) simp
  have 3: "length defects = 1000" using ld by (simp add: n_samples_def)
  from cols obtain c cs where dc: "data = c # cs" by (cases data) auto
  with lens have 5: "nrows ?df = 1000" by (simp add: nrows_def n_samples_def)
  have "length (map fst data) = 20" unfolding cols by simp
  then have 6: "ncols ?df = 21" by (simp add: ncols_def)
  have 7: "columns_of ?df = [''loc'', ''v_g'', ''ev_g'', ''iv_g'', ''n'', ''v'', ''d'', ''i'', ''e'', ''b'', ''t'',
        ''lOCode'', ''lOComment'', ''lOBlank'', ''lOCodeAndComment'', ''uniq_Op'',
        ''uniq_Opnd'', ''total_Op'', ''total_Opnd'', ''branchCount'', ''defects'']"
    by (simp add: columns_of_def cols)
  from 1 have "\<forall>g. create_sample_data rng g = Some (?df, g2)" ..
  from this 2 3 rd 5 6 7 show ?thesis by (rule that)
qed

lemma simulate_eq:
  assumes "\<forall>g. create_sample_data rng g = Some (df, g2)"
    and "getitem df ''defects'' = Some defects"
  shows "simulate_data_processing rng g =
    Some \<lparr>datasets = [(''kc1'', df), (''kc2'', df), (''pc1'', df), (''pc2'', df), (''cm1'', df)],
          metadata_info =
            \<lparr>dataset_name = ''NASA Software Defect Prediction (Demo Data)'',
             source = ''Generated sample data for demonstration'',
             about = ''Sample NASA-style software defect prediction datasets'',
             files = map (\<lambda>name.
               \<lparr>filename = name @ ''.csv'', rows = nrows df, columns = ncols df,
                column_names = columns_of df, missing_values = missing_counts df,
                defect_rate = format_pct (series_mean defects),
                description = ''Sample NASA '' @ upper name @ '' dataset with '' @
                   str_nat (nrows df) @ '' samples''\<rparr>)
               [''kc1'', ''kc2'', ''pc1'', ''pc2'', ''cm1'']\<rparr>,
          total_samples = nrows df + (nrows df + (nrows df + (nrows df + nrows df))),
          avg_defect_rate = np_mean [series_mean defects, series_mean defects, series_mean defects,
              series_mean defects, series_mean defects],
          summary_lines =
            [''Total datasets: '' @ str_nat 5,
             ''Total samples: '' @ str_nat (nrows df + (nrows df + (nrows df + (nrows df + nrows df)))),
             ''Average defect rate: '' @ format_pct (np_mean [series_mean defects, series_mean defects, series_mean defects,
              series_mean defects, series_mean defects])],
          rng_state = g2\<rparr>"
  by (simp add: simulate_data_processing_def make_file_info_def assms Let_def eval_nat_numeral)

lemma str_nat_5: "str_nat 5 = ''5''"
  by (simp add: str_nat.simps)

lemma str_nat_1000: "str_nat 1000 = ''1000''"
  by (simp add: str_nat.simps)

lemma str_nat_5000: "str_nat 5000 = ''5000''"
  by (simp add: str_nat.simps)

lemma format_pct_example: "format_pct (Finite (487 / 1000)) = ''48.70%''"
  by (simp add: format_pct_def round_half_even_def Let_def str_nat.simps)

lemma missing_counts_zero: "missing_counts df = map (\<lambda>c. (c, 0)) (columns_of df)"
  by (simp add: missing_counts_def columns_of_def isnull_def split_beta)

text \<open>
  The defect rate of a binary column of 1000 labels is \<open>k / 1000\<close> for the number \<open>k\<close> of
  ones. One hundred times this value, \<open>k / 10\<close>, has one decimal, so formatting it with two
  decimals rounds nothing: the text is the digits of \<open>k div 10\<close>, a point, the digit
  \<open>k mod 10\<close>, a zero and the percent sign.
\<close>

lemma sum_binary_bounds:
  "\<forall>x \<in> set xs. x = 0 \<or> x = (1::int) \<Longrightarrow> 0 \<le> sum_list xs \<and> sum_list xs \<le> int (length xs)"
  by (induction xs) auto

lemma round_half_even_of_int: "round_half_even (of_int z) = z"
  by (simp add: round_half_even_def)

lemma str_nat_upto_100:
  assumes "n \<le> 100"
  shows "str_nat n =
     (if n < 10 then [''0123456789'' ! n]
      else if n < 100 then [''0123456789'' ! (n div 10), ''0123456789'' ! (n mod 10)]
      else ''100'')"
proof -
  consider "n < 10" | "10 \<le> n" "n < 100" | "n = 100" using assms by linarith
  then show ?thesis
  proof cases
    case 1
    then show ?thesis by (subst str_nat.simps) simp
  next
    case 2
    then have "n div 10 < 10" by simp
    then have "str_nat (n div 10) = [''0123456789'' ! (n div 10)]"
      by (subst str_nat.simps) simp
    with 2 show ?thesis by (subst str_nat.simps) simp
  next
    case 3
    then show ?thesis by (simp add: str_nat.simps)
  qed
qed

lemma format_pct_thousandths:
  assumes "k \<le> 1000"
  shows "format_pct (Finite (real k / 1000)) =
     (if k < 100 then [''0123456789'' ! (k div 10)]
               else if k < 1000 then [''0123456789'' ! (k div 100), ''0123456789'' ! (k div 10 mod 10)]
               else ''100'') @
              [CHR ''.'', ''0123456789'' ! (k mod 10), CHR ''0'', CHR ''%'']"
proof -
  have "real k / 1000 * 100 * 100 = of_int (int (10 * k))" by simp
  then have h: "round_half_even (real k / 1000 * 100 * 100) = int (10 * k)"
    by (simp only: round_half_even_of_int)
  have m: "nat \<bar>int (10 * k)\<bar> = 10 * k" by simp
  have a: "10 * k div 100 = k div 10" by simp
  have "10 * k mod 100 = 10 * (k mod 10)"
    using mod_mult_mult1 [of 10 k 10] by simp
  then have b: "10 * k mod 100 div 10 = k mod 10" by simp
  have c: "10 * k mod 10 = 0" by simp
  from assms have "k div 10 \<le> 100" by simp
  note s = str_nat_upto_100 [OF this]
  have i: "(k div 10 < 10) = (k < 100)" "(k div 10 < 100) = (k < 1000)" by auto
  have j: "k div 10 div 10 = k div 100" by (simp add: div_mult2_eq [symmetric])
  have "\<not> real k / 1000 < 0" by simp
  then show ?thesis
    unfolding format_pct_def by (simp only: pyfloat.case Let_def h m a b c s i j if_False) simp
qed

lemma series_mean_binary:
  assumes "length defects = 1000" "\<forall>x \<in> set defects. x = 0 \<or> x = 1"
  shows "0 \<le> sum_list defects" "nat (sum_list defects) \<le> 1000"
    "series_mean defects = Finite (real (nat (sum_list defects)) / 1000)"
proof -
  from sum_binary_bounds [OF assms(2)] assms(1)
  show p: "0 \<le> sum_list defects" and "nat (sum_list defects) \<le> 1000" by auto
  from assms(1) have "defects \<noteq> []" by auto
  with assms(1) p show "series_mean defects = Finite (real (nat (sum_list defects)) / 1000)"
    by (simp add: series_mean_def)
qed

lemma simulate_returns:
  assumes "rng_ok rng"
  shows "\<exists>run. simulate_data_processing rng g = Some run"
proof -
  from assms obtain df g2 defects where
    c: "\<forall>g. create_sample_data rng g = Some (df, g2)" and
    d: "getitem df ''defects'' = Some defects" and
    l: "length defects = 1000" and
    b: "\<forall>x \<in> set defects. x = 0 \<or> x = 1" and
    s: "nrows df = 1000" "ncols df = 21"
      "columns_of df =
       [''loc'', ''v_g'', ''ev_g'', ''iv_g'', ''n'', ''v'', ''d'', ''i'', ''e'', ''b'', ''t'',
        ''lOCode'', ''lOComment'', ''lOBlank'', ''lOCodeAndComment'', ''uniq_Op'',
        ''uniq_Opnd'', ''total_Op'', ''total_Opnd'', ''branchCount'', ''defects'']"
    by (rule generated_table)
  show ?thesis unfolding simulate_eq [OF c d] by simp
qed

lemma simulate_datasets:
  assumes "simulate_data_processing rng g = Some run"
  shows "\<exists>df. datasets run =
     [(''kc1'', df), (''kc2'', df), (''pc1'', df), (''pc2'', df), (''cm1'', df)]"
proof (cases "create_sample_data rng g")
  case None
  with assms show ?thesis by (simp add: simulate_data_processing_def)
next
  case (Some p)
  obtain df g2 where p: "p = (df, g2)" by (cases p)
  have c: "create_sample_data rng h = Some (df, g2)" for h
    using Some p create_sample_data_indep [of rng h g] by simp
  from assms show ?thesis
    by (auto simp: simulate_data_processing_def c Let_def bind_eq_Some_conv)
qed

lemma getitem_key: "getitem d k = Some v \<Longrightarrow> k \<in> fst ` set d"
  unfolding getitem_def by (metis map_of_SomeD fst_conv image_eqI)

lemma defect_prob_nth:
  "i < length s \<Longrightarrow> defect_prob s ! i = 1 / (1 + exp (- 2 * (s ! i - 0.5)))"
  by (simp add: defect_prob_def)

subsection \<open>The score and the probability of a row\<close>

lemma logistic_strict_mono:
  fixes a b :: real
  assumes "a < b"
  shows "1 / (1 + exp (- 2 * (a - 0.5))) < 1 / (1 + exp (- 2 * (b - 0.5)))"
proof -
  from assms have "- 2 * (b - 0.5) < - 2 * (a - 0.5)" by simp
  then have "exp (- 2 * (b - 0.5)) < exp (- 2 * (a - 0.5))" by simp
  then have e: "1 + exp (- 2 * (b - 0.5)) < 1 + exp (- 2 * (a - 0.5))" by simp
  have "0 < exp (- 2 * (b - 0.5))" by simp
  then have p: "0 < 1 + exp (- 2 * (b - 0.5))" by linarith
  have "0 < exp (- 2 * (a - 0.5))" by simp
  then have q: "0 < 1 + exp (- 2 * (a - 0.5))" by linarith
  from p q have "0 < (1 + exp (- 2 * (a - 0.5))) * (1 + exp (- 2 * (b - 0.5)))"
    by (rule mult_pos_pos [rotated])
  with e show ?thesis by (intro divide_strict_left_mono) simp_all
qed

lemma complexity_score_cong:
  assumes "getitem data' ''loc'' = getitem data ''loc''"
    and "getitem data' ''v_g'' = getitem data ''v_g''"
    and "getitem data' ''ev_g'' = getitem data ''ev_g''"
    and "getitem data' ''d'' = getitem data ''d''"
  shows "complexity_score data' = complexity_score data"
  unfolding complexity_score_def assms ..

lemma getitem_setitem_other: "k \<noteq> c \<Longrightarrow> getitem (setitem data c col) k = getitem data k"
  by (simp add: getitem_def setitem_def update_conv')

lemma getitem_setitem_same: "getitem (setitem data c col) c = Some col"
  by (simp add: getitem_def setitem_def update_conv')

subsection \<open>Ranges of the metric columns\<close>

text \<open>
  Claim C3. With a library that keeps its contract, the generator returns a table, and in
  it every value of each of the twenty metric columns lies in the half-open range the
  script draws that column from: \<open>loc\<close> in \<open>[10, 10000)\<close>, \<open>v_g\<close> in \<open>[1, 50)\<close>, and so on
  down to \<open>branchCount\<close> in \<open>[0, 200)\<close>. The state the generator is called in is
  arbitrary, so this holds of every dataset the orchestrator generates.
\<close>

theorem feature_ranges:
  assumes "rng_ok rng"
  shows "\<exists>df g'. create_sample_data rng g = Some (df, g') \<and>
     column_within df ''loc'' 10 10000 \<and> column_within df ''v_g'' 1 50 \<and>
     column_within df ''ev_g'' 1 100 \<and> column_within df ''iv_g'' 1 30 \<and>
     column_within df ''n'' 5 500 \<and> column_within df ''v'' 10 2000 \<and>
     column_within df ''d'' 1 100 \<and> column_within df ''i'' 1 50 \<and>
     column_within df ''e'' 50 50000 \<and> column_within df ''b'' 1 1000 \<and>
     column_within df ''t'' 1 3000 \<and> column_within df ''lOCode'' 5 8000 \<and>
     column_within df ''lOComment'' 0 2000 \<and> column_within df ''lOBlank'' 0 1000 \<and>
     column_within df ''lOCodeAndComment'' 0 100 \<and> column_within df ''uniq_Op'' 1 50 \<and>
     column_within df ''uniq_Opnd'' 1 100 \<and> column_within df ''total_Op'' 10 1000 \<and>
     column_within df ''total_Opnd'' 10 2000 \<and> column_within df ''branchCount'' 0 200"
proof -
  from assms obtain data g1 defects g2 where
    sm: "sample_metrics rng (rng_seed rng 42) = (data, g1)" and
    r: "create_sample_data rng g = Some (data @ [(''defects'', defects)], g2)"
    by (rule create_sample_data_ok)
  from sm have data: "data = fst (sample_metrics rng (rng_seed rng 42))" by simp
  note w = sample_metrics_within [OF assms, of "rng_seed rng 42", folded data, THEN within_append]
  show ?thesis
    unfolding r by (rule exI, rule exI, intro conjI, rule refl) (rule w)+
qed

theorem feature_ranges_witness:
  "\<exists>df g'. create_sample_data counter_rng 0 = Some (df, g') \<and>
     column_within df ''loc'' 10 10000 \<and> column_within df ''v_g'' 1 50 \<and>
     column_within df ''ev_g'' 1 100 \<and> column_within df ''iv_g'' 1 30 \<and>
     column_within df ''n'' 5 500 \<and> column_within df ''v'' 10 2000 \<and>
     column_within df ''d'' 1 100 \<and> column_within df ''i'' 1 50 \<and>
     column_within df ''e'' 50 50000 \<and> column_within df ''b'' 1 1000 \<and>
     column_within df ''t'' 1 3000 \<and> column_within df ''lOCode'' 5 8000 \<and>
     column_within df ''lOComment'' 0 2000 \<and> column_within df ''lOBlank'' 0 1000 \<and>
     column_within df ''lOCodeAndComment'' 0 100 \<and> column_within df ''uniq_Op'' 1 50 \<and>
     column_within df ''uniq_Opnd'' 1 100 \<and> column_within df ''total_Op'' 10 1000 \<and>
     column_within df ''total_Opnd'' 10 2000 \<and> column_within df ''branchCount'' 0 200"
  by (rule feature_ranges [OF counter_rng_ok])

subsection \<open>Shape and schema of the datasets\<close>

text \<open>
  Claim C4. With a library that keeps its contract, a run produces the five datasets
  \<open>kc1\<close>, \<open>kc2\<close>, \<open>pc1\<close>, \<open>pc2\<close> and \<open>cm1\<close>, in this order, and each of them has exactly
  1000 rows and exactly 21 columns, named \<open>loc\<close>, \<open>v_g\<close>, ..., \<open>branchCount\<close>, \<open>defects\<close>
  in the order of the schema.
\<close>

theorem dataset_shape:
  assumes "rng_ok rng"
  shows "\<exists>run. simulate_data_processing rng g = Some run \<and>
     map fst (datasets run) = [''kc1'', ''kc2'', ''pc1'', ''pc2'', ''cm1''] \<and>
     list_all (\<lambda>(name, df). nrows df = 1000 \<and> ncols df = 21 \<and>
        columns_of df =
          [''loc'', ''v_g'', ''ev_g'', ''iv_g'', ''n'', ''v'', ''d'', ''i'', ''e'', ''b'', ''t'',
           ''lOCode'', ''lOComment'', ''lOBlank'', ''lOCodeAndComment'', ''uniq_Op'',
           ''uniq_Opnd'', ''total_Op'', ''total_Opnd'', ''branchCount'', ''defects''])
       (datasets run)"
proof -
  from assms obtain df g2 defects where
    c: "\<forall>g. create_sample_data rng g = Some (df, g2)" and
    d: "getitem df ''defects'' = Some defects" and
    l: "length defects = 1000" and
    b: "\<forall>x \<in> set defects. x = 0 \<or> x = 1" and
    s: "nrows df = 1000" "ncols df = 21"
      "columns_of df =
       [''loc'', ''v_g'', ''ev_g'', ''iv_g'', ''n'', ''v'', ''d'', ''i'', ''e'', ''b'', ''t'',
        ''lOCode'', ''lOComment'', ''lOBlank'', ''lOCodeAndComment'', ''uniq_Op'',
        ''uniq_Opnd'', ''total_Op'', ''total_Opnd'', ''branchCount'', ''defects'']"
    by (rule generated_table)
  show ?thesis
    unfolding simulate_eq [OF c d] using s by simp
qed

theorem dataset_shape_witness:
  "\<exists>run. simulate_data_processing counter_rng 0 = Some run \<and>
     map fst (datasets run) = [''kc1'', ''kc2'', ''pc1'', ''pc2'', ''cm1''] \<and>
     list_all (\<lambda>(name, df). nrows df = 1000 \<and> ncols df = 21 \<and>
        columns_of df =
          [''loc'', ''v_g'', ''ev_g'', ''iv_g'', ''n'', ''v'', ''d'', ''i'', ''e'', ''b'', ''t'',
           ''lOCode'', ''lOComment'', ''lOBlank'', ''lOCodeAndComment'', ''uniq_Op'',
           ''uniq_Opnd'', ''total_Op'', ''total_Opnd'', ''branchCount'', ''defects''])
       (datasets run)"
  by (rule dataset_shape [OF counter_rng_ok])

subsection \<open>The label column is binary\<close>

text \<open>
  Claim C5. With a library that keeps its contract, the table the generator returns has
  a column \<open>defects\<close>, with one label per row, and every label is 0 or 1. The
  probabilities handed to the binomial draw lie in \<open>[0, 1]\<close>, which is what the contract
  of the draw asks for.
\<close>

theorem defects_binary:
  assumes "rng_ok rng"
  shows "\<exists>df g' defects. create_sample_data rng g = Some (df, g') \<and>
     getitem df ''defects'' = Some defects \<and> length defects = nrows df \<and>
     set defects \<subseteq> {0, 1}"
proof -
  from assms obtain df g2 defects where
    c: "\<forall>g. create_sample_data rng g = Some (df, g2)" and
    d: "getitem df ''defects'' = Some defects" and
    l: "length defects = 1000" and
    b: "\<forall>x \<in> set defects. x = 0 \<or> x = 1" and
    s: "nrows df = 1000" "ncols df = 21"
      "columns_of df =
       [''loc'', ''v_g'', ''ev_g'', ''iv_g'', ''n'', ''v'', ''d'', ''i'', ''e'', ''b'', ''t'',
        ''lOCode'', ''lOComment'', ''lOBlank'', ''lOCodeAndComment'', ''uniq_Op'',
        ''uniq_Opnd'', ''total_Op'', ''total_Opnd'', ''branchCount'', ''defects'']"
    by (rule generated_table)
  from b have "set defects \<subseteq> {0, 1}" by auto
  with c d l s(1) show ?thesis by simp
qed

theorem defects_binary_witness:
  "\<exists>df g' defects. create_sample_data counter_rng 0 = Some (df, g') \<and>
     getitem df ''defects'' = Some defects \<and> length defects = nrows df \<and>
     set defects \<subseteq> {0, 1}"
  by (rule defects_binary [OF counter_rng_ok])

subsection \<open>The entries of the metadata document\<close>

text \<open>
  Claim C6. With a library that keeps its contract, the \<open>files\<close> list of the metadata
  document has exactly five entries, one per dataset and in the order of the datasets
  (\<open>kc1\<close>, \<open>kc2\<close>, \<open>pc1\<close>, \<open>pc2\<close>, \<open>cm1\<close>); each entry names its dataset's file, has
  \<open>rows = 1000\<close> and \<open>columns = 21\<close>, and its \<open>defect_rate\<close> is the mean of that dataset's
  \<open>defects\<close> column as a percentage with two decimals. Spelled out: the column has 1000
  labels with sum \<open>k\<close>, one hundred times its mean \<open>sum / length\<close> is \<open>k / 10\<close>, and the text
  is the decimal digits of \<open>k div 10\<close>, a point, the digit \<open>k mod 10\<close>, a zero and the
  percent sign (\<open>48.70%\<close> for \<open>k = 487\<close>).
\<close>

theorem metadata_files:
  assumes "rng_ok rng"
  shows "\<exists>run. simulate_data_processing rng g = Some run \<and>
     map fst (datasets run) = [''kc1'', ''kc2'', ''pc1'', ''pc2'', ''cm1''] \<and>
     length (files (metadata_info run)) = 5 \<and>
     list_all2 (\<lambda>(name, df) fi.
         filename fi = name @ ''.csv'' \<and> rows fi = 1000 \<and> columns fi = 21 \<and>
         (\<exists>defects k. getitem df ''defects'' = Some defects \<and> length defects = 1000 \<and>
            0 \<le> sum_list defects \<and> k = nat (sum_list defects) \<and> k \<le> 1000 \<and>
            real k / 10 = 100 * (real_of_int (sum_list defects) / real (length defects)) \<and>
            defect_rate fi =
              (if k < 100 then [''0123456789'' ! (k div 10)]
               else if k < 1000 then [''0123456789'' ! (k div 100), ''0123456789'' ! (k div 10 mod 10)]
               else ''100'') @
              [CHR ''.'', ''0123456789'' ! (k mod 10), CHR ''0'', CHR ''%'']))
       (datasets run) (files (metadata_info run))"
proof -
  from assms obtain df g2 defects where
    c: "\<forall>g. create_sample_data rng g = Some (df, g2)" and
    d: "getitem df ''defects'' = Some defects" and
    l: "length defects = 1000" and
    b: "\<forall>x \<in> set defects. x = 0 \<or> x = 1" and
    s: "nrows df = 1000" "ncols df = 21"
      "columns_of df =
       [''loc'', ''v_g'', ''ev_g'', ''iv_g'', ''n'', ''v'', ''d'', ''i'', ''e'', ''b'', ''t'',
        ''lOCode'', ''lOComment'', ''lOBlank'', ''lOCodeAndComment'', ''uniq_Op'',
        ''uniq_Opnd'', ''total_Op'', ''total_Opnd'', ''branchCount'', ''defects'']"
    by (rule generated_table)
  note m = series_mean_binary [OF l b]
  have f: "format_pct (series_mean defects) =
      (if nat (sum_list defects) < 100 then [''0123456789'' ! (nat (sum_list defects) div 10)]
               else if nat (sum_list defects) < 1000 then [''0123456789'' ! (nat (sum_list defects) div 100), ''0123456789'' ! (nat (sum_list defects) div 10 mod 10)]
               else ''100'') @
              [CHR ''.'', ''0123456789'' ! (nat (sum_list defects) mod 10), CHR ''0'', CHR ''%'']"
    unfolding m(3) by (rule format_pct_thousandths [OF m(2)])
  show ?thesis
    unfolding simulate_eq [OF c d] f using s d l m(1,2) by simp
qed


theorem metadata_files_witness:
  "\<exists>run. simulate_data_processing counter_rng 0 = Some run \<and>
     map fst (datasets run) = [''kc1'', ''kc2'', ''pc1'', ''pc2'', ''cm1''] \<and>
     length (files (metadata_info run)) = 5 \<and>
     list_all2 (\<lambda>(name, df) fi.
         filename fi = name @ ''.csv'' \<and> rows fi = 1000 \<and> columns fi = 21 \<and>
         (\<exists>defects k. getitem df ''defects'' = Some defects \<and> length defects = 1000 \<and>
            0 \<le> sum_list defects \<and> k = nat (sum_list defects) \<and> k \<le> 1000 \<and>
            real k / 10 = 100 * (real_of_int (sum_list defects) / real (length defects)) \<and>
            defect_rate fi =
              (if k < 100 then [''0123456789'' ! (k div 10)]
               else if k < 1000 then [''0123456789'' ! (k div 100), ''0123456789'' ! (k div 10 mod 10)]
               else ''100'') @
              [CHR ''.'', ''0123456789'' ! (k mod 10), CHR ''0'', CHR ''%'']))
       (datasets run) (files (metadata_info run))"
  by (rule metadata_files [OF counter_rng_ok])

subsection \<open>No missing values\<close>

text \<open>
  Claim C7. With a library that keeps its contract, every entry of the metadata document
  records a missing-value count for each of the 21 columns of its dataset, and every one
  of these counts is 0.
\<close>

theorem no_missing_values:
  assumes "rng_ok rng"
  shows "\<exists>run. simulate_data_processing rng g = Some run \<and>
     length (files (metadata_info run)) = 5 \<and>
     list_all (\<lambda>fi.
         map fst (missing_values fi) =
           [''loc'', ''v_g'', ''ev_g'', ''iv_g'', ''n'', ''v'', ''d'', ''i'', ''e'', ''b'', ''t'',
            ''lOCode'', ''lOComment'', ''lOBlank'', ''lOCodeAndComment'', ''uniq_Op'',
            ''uniq_Opnd'', ''total_Op'', ''total_Opnd'', ''branchCount'', ''defects''] \<and>
         list_all (\<lambda>(c, k). k = 0) (missing_values fi))
       (files (metadata_info run))"
proof -
  from assms obtain df g2 defects where
    c: "\<forall>g. create_sample_data rng g = Some (df, g2)" and
    d: "getitem df ''defects'' = Some defects" and
    l: "length defects = 1000" and
    b: "\<forall>x \<in> set defects. x = 0 \<or> x = 1" and
    s: "nrows df = 1000" "ncols df = 21"
      "columns_of df =
       [''loc'', ''v_g'', ''ev_g'', ''iv_g'', ''n'', ''v'', ''d'', ''i'', ''e'', ''b'', ''t'',
        ''lOCode'', ''lOComment'', ''lOBlank'', ''lOCodeAndComment'', ''uniq_Op'',
        ''uniq_Opnd'', ''total_Op'', ''total_Opnd'', ''branchCount'', ''defects'']"
    by (rule generated_table)
  show ?thesis
    unfolding simulate_eq [OF c d] missing_counts_zero s by simp
qed

theorem no_missing_values_witness:
  "\<exists>run. simulate_data_processing counter_rng 0 = Some run \<and>
     length (files (metadata_info run)) = 5 \<and>
     list_all (\<lambda>fi.
         map fst (missing_values fi) =
           [''loc'', ''v_g'', ''ev_g'', ''iv_g'', ''n'', ''v'', ''d'', ''i'', ''e'', ''b'', ''t'',
            ''lOCode'', ''lOComment'', ''lOBlank'', ''lOCodeAndComment'', ''uniq_Op'',
            ''uniq_Opnd'', ''total_Op'', ''total_Opnd'', ''branchCount'', ''defects''] \<and>
         list_all (\<lambda>(c, k). k = 0) (missing_values fi))
       (files (metadata_info run))"
  by (rule no_missing_values [OF counter_rng_ok])

subsection \<open>The summary block\<close>

text \<open>
  Claim C8. With a library that keeps its contract, the summary of a run reports five
  datasets, a total of samples that is the sum of the row counts of the five datasets,
  namely 5000, and an average defect rate that is the plain arithmetic mean of the five
  datasets' defect rates, each rate being the sum of that dataset's 1000 labels divided
  by 1000. This average is \<open>k / 1000\<close> for a number \<open>k\<close> of at most 1000, and the
  three printed lines give the count 5, the total 5000 and the average as the percentage
  \<open>k / 10\<close> with two decimals.
\<close>

theorem summary_block:
  assumes "rng_ok rng"
  shows "\<exists>run d1 d2 d3 d4 d5 k. simulate_data_processing rng g = Some run \<and>
     length (datasets run) = 5 \<and>
     total_samples run = sum_list (map (\<lambda>(name, df). nrows df) (datasets run)) \<and>
     total_samples run = 5000 \<and>
     map (\<lambda>(name, df). getitem df ''defects'') (datasets run) =
       [Some d1, Some d2, Some d3, Some d4, Some d5] \<and>
     length d1 = 1000 \<and> length d2 = 1000 \<and> length d3 = 1000 \<and> length d4 = 1000 \<and>
     length d5 = 1000 \<and>
     avg_defect_rate run =
       Finite ((real_of_int (sum_list d1) / 1000 + real_of_int (sum_list d2) / 1000 +
                real_of_int (sum_list d3) / 1000 + real_of_int (sum_list d4) / 1000 +
                real_of_int (sum_list d5) / 1000) / 5) \<and>
     k \<le> 1000 \<and> avg_defect_rate run = Finite (real k / 1000) \<and>
     summary_lines run =
       [''Total datasets: 5'', ''Total samples: 5000'',
        ''Average defect rate: '' @
           ((if k < 100 then [''0123456789'' ! (k div 10)]
               else if k < 1000 then [''0123456789'' ! (k div 100), ''0123456789'' ! (k div 10 mod 10)]
               else ''100'') @
              [CHR ''.'', ''0123456789'' ! (k mod 10), CHR ''0'', CHR ''%''])]"
proof -
  from assms obtain df g2 defects where
    c: "\<forall>g. create_sample_data rng g = Some (df, g2)" and
    d: "getitem df ''defects'' = Some defects" and
    l: "length defects = 1000" and
    b: "\<forall>x \<in> set defects. x = 0 \<or> x = 1" and
    s: "nrows df = 1000" "ncols df = 21"
      "columns_of df =
       [''loc'', ''v_g'', ''ev_g'', ''iv_g'', ''n'', ''v'', ''d'', ''i'', ''e'', ''b'', ''t'',
        ''lOCode'', ''lOComment'', ''lOBlank'', ''lOCodeAndComment'', ''uniq_Op'',
        ''uniq_Opnd'', ''total_Op'', ''total_Opnd'', ''branchCount'', ''defects'']"
    by (rule generated_table)
  note m = series_mean_binary [OF l b]
  define k where "k = nat (sum_list defects)"
  have sm: "series_mean defects = Finite (real k / 1000)"
    unfolding k_def by (rule m(3))
  have k: "k \<le> 1000" unfolding k_def by (rule m(2))
  have rk: "real_of_int (sum_list defects) = real k"
    unfolding k_def using m(1) by simp
  have av: "np_mean [Finite (real k / 1000), Finite (real k / 1000), Finite (real k / 1000),
      Finite (real k / 1000), Finite (real k / 1000)] = Finite (real k / 1000)"
    by (simp add: np_mean_def)
  note f = format_pct_thousandths [OF k]
  have "\<exists>run. simulate_data_processing rng g = Some run \<and>
      datasets run = [(''kc1'', df), (''kc2'', df), (''pc1'', df), (''pc2'', df), (''cm1'', df)] \<and>
      total_samples run = nrows df + (nrows df + (nrows df + (nrows df + nrows df))) \<and>
      avg_defect_rate run =
        np_mean [series_mean defects, series_mean defects, series_mean defects,
                 series_mean defects, series_mean defects] \<and>
      summary_lines run =
        [''Total datasets: '' @ str_nat 5,
         ''Total samples: '' @ str_nat (nrows df + (nrows df + (nrows df + (nrows df + nrows df)))),
         ''Average defect rate: '' @
           format_pct (np_mean [series_mean defects, series_mean defects, series_mean defects,
                                series_mean defects, series_mean defects])]"
    unfolding simulate_eq [OF c d] by simp
  then obtain run where
    r: "simulate_data_processing rng g = Some run" and
    ds: "datasets run = [(''kc1'', df), (''kc2'', df), (''pc1'', df), (''pc2'', df), (''cm1'', df)]" and
    ts: "total_samples run = 5000" and
    ad: "avg_defect_rate run = Finite (real k / 1000)" and
    sl: "summary_lines run =
        [''Total datasets: 5'', ''Total samples: 5000'',
         ''Average defect rate: '' @ format_pct (Finite (real k / 1000))]"
    unfolding sm av s by (auto simp: str_nat_5 str_nat_5000)
  have e: "Finite (real k / 1000) =
      Finite ((real_of_int (sum_list defects) / 1000 + real_of_int (sum_list defects) / 1000 +
               real_of_int (sum_list defects) / 1000 + real_of_int (sum_list defects) / 1000 +
               real_of_int (sum_list defects) / 1000) / 5)"
    unfolding rk by simp
  show ?thesis
    apply (rule exI [of _ run], rule exI [of _ defects], rule exI [of _ defects],
        rule exI [of _ defects], rule exI [of _ defects], rule exI [of _ defects],
        rule exI [of _ k])
    unfolding sl f
    using r ds ts ad e s d l k by simp
qed

theorem summary_block_witness:
  "\<exists>run d1 d2 d3 d4 d5 k. simulate_data_processing counter_rng 0 = Some run \<and>
     length (datasets run) = 5 \<and>
     total_samples run = sum_list (map (\<lambda>(name, df). nrows df) (datasets run)) \<and>
     total_samples run = 5000 \<and>
     map (\<lambda>(name, df). getitem df ''defects'') (datasets run) =
       [Some d1, Some d2, Some d3, Some d4, Some d5] \<and>
     length d1 = 1000 \<and> length d2 = 1000 \<and> length d3 = 1000 \<and> length d4 = 1000 \<and>
     length d5 = 1000 \<and>
     avg_defect_rate run =
       Finite ((real_of_int (sum_list d1) / 1000 + real_of_int (sum_list d2) / 1000 +
                real_of_int (sum_list d3) / 1000 + real_of_int (sum_list d4) / 1000 +
                real_of_int (sum_list d5) / 1000) / 5) \<and>
     k \<le> 1000 \<and> avg_defect_rate run = Finite (real k / 1000) \<and>
     summary_lines run =
       [''Total datasets: 5'', ''Total samples: 5000'',
        ''Average defect rate: '' @
           ((if k < 100 then [''0123456789'' ! (k div 10)]
               else if k < 1000 then [''0123456789'' ! (k div 100), ''0123456789'' ! (k div 10 mod 10)]
               else ''100'') @
              [CHR ''.'', ''0123456789'' ! (k mod 10), CHR ''0'', CHR ''%''])]"
  by (rule summary_block [OF counter_rng_ok])

subsection \<open>Derivation of the label\<close>

text \<open>
  Claim C1. With a library that keeps its contract, the generator returns a table of 1000
  rows in which, for every row \<open>i\<close>, the score is
  \<open>v_g / 50 + ev_g / 100 + d / 100 + loc / 10000\<close> of the row's values, the probability is
  the logistic function \<open>1 / (1 + exp (- 2 * (score - 0.5)))\<close> of that score, and the
  column \<open>defects\<close> is the array that \<^verbatim>\<open>binomial\<close> draws with one trial per row at these
  probabilities, from the state the twenty metric draws left behind. The arithmetic is
  that of the real numbers.
\<close>

theorem label_derivation:
  assumes "rng_ok rng"
  shows "\<exists>df g' loc v_g ev_g d defects score prob.
     create_sample_data rng g = Some (df, g') \<and> nrows df = 1000 \<and>
     getitem df ''loc'' = Some loc \<and> getitem df ''v_g'' = Some v_g \<and>
     getitem df ''ev_g'' = Some ev_g \<and> getitem df ''d'' = Some d \<and>
     getitem df ''defects'' = Some defects \<and>
     length score = nrows df \<and> length prob = nrows df \<and> length defects = nrows df \<and>
     (\<forall>i < nrows df. score ! i =
        real_of_int (v_g ! i) / 50 + real_of_int (ev_g ! i) / 100 +
        real_of_int (d ! i) / 100 + real_of_int (loc ! i) / 10000) \<and>
     (\<forall>i < nrows df. prob ! i = 1 / (1 + exp (- 2 * (score ! i - 0.5)))) \<and>
     defects =
       fst (rng_binomial rng 1 prob 1000 (snd (sample_metrics rng (rng_seed rng 42))))"
proof -
  from assms obtain data g1 v_g ev_g d loc score defects g2 where
    sm: "sample_metrics rng (rng_seed rng 42) = (data, g1)" and
    v_g: "getitem data ''v_g'' = Some v_g" and ev_g: "getitem data ''ev_g'' = Some ev_g" and
    d: "getitem data ''d'' = Some d" and loc: "getitem data ''loc'' = Some loc" and
    cs: "complexity_score data = Some score" and
    score: "score = map (\<lambda>i. real_of_int (v_g ! i) / 50 + real_of_int (ev_g ! i) / 100 +
                    real_of_int (d ! i) / 100 + real_of_int (loc ! i) / 10000) [0..<n_samples]" and
    bin: "rng_binomial rng 1 (defect_prob score) n_samples g1 = (defects, g2)" and
    ld: "length defects = n_samples" and
    rd: "\<forall>x \<in> set defects. x = 0 \<or> x = 1" and
    r: "create_sample_data rng g = Some (data @ [(''defects'', defects)], g2)"
    by (rule create_sample_data_ok)
  let ?df = "data @ [(''defects'', defects)]"
  from sm have data: "data = fst (sample_metrics rng (rng_seed rng 42))" by simp
  have lens: "list_all (\<lambda>p. length (snd p) = n_samples) data"
    unfolding data by (rule lengths_sample_metrics [OF assms])
  from getitem_key [OF loc] obtain c cs where "data = c # cs" by (cases data) auto
  with lens have n: "nrows ?df = 1000" by (simp add: nrows_def n_samples_def)
  have old: "getitem ?df k = Some v" if "getitem data k = Some v" for k v
    using getitem_append_old [OF getitem_key [OF that]] that by simp
  have "''defects'' \<notin> set (map fst data)"
    unfolding data columns_sample_metrics by simp
  then have new: "getitem ?df ''defects'' = Some defects"
    by (intro getitem_append_new) simp
  have ls: "length score = 1000" by (simp add: score n_samples_def)
  have sc: "score ! i = real_of_int (v_g ! i) / 50 + real_of_int (ev_g ! i) / 100 +
        real_of_int (d ! i) / 100 + real_of_int (loc ! i) / 10000" if "i < 1000" for i
    using that by (simp add: score n_samples_def)
  have pr: "defect_prob score ! i = 1 / (1 + exp (- 2 * (score ! i - 0.5)))" if "i < 1000" for i
    using that ls by (simp add: defect_prob_nth)
  have df: "defects = fst (rng_binomial rng 1 (defect_prob score) 1000 (snd (sample_metrics rng (rng_seed rng 42))))"
    using bin sm by (simp add: n_samples_def del: One_nat_def)
  show ?thesis
    apply (rule exI [of _ ?df], rule exI [of _ g2], rule exI [of _ loc], rule exI [of _ v_g],
        rule exI [of _ ev_g], rule exI [of _ d], rule exI [of _ defects],
        rule exI [of _ score], rule exI [of _ "defect_prob score"])
    using r n old [OF loc] old [OF v_g] old [OF ev_g] old [OF d] new ls ld sc pr df
    by (simp add: length_defect_prob n_samples_def del: One_nat_def)
qed

theorem label_derivation_witness:
  "\<exists>df g' loc v_g ev_g d defects score prob.
     create_sample_data counter_rng 0 = Some (df, g') \<and> nrows df = 1000 \<and>
     getitem df ''loc'' = Some loc \<and> getitem df ''v_g'' = Some v_g \<and>
     getitem df ''ev_g'' = Some ev_g \<and> getitem df ''d'' = Some d \<and>
     getitem df ''defects'' = Some defects \<and>
     length score = nrows df \<and> length prob = nrows df \<and> length defects = nrows df \<and>
     score ! 999 =
        real_of_int (v_g ! 999) / 50 + real_of_int (ev_g ! 999) / 100 +
        real_of_int (d ! 999) / 100 + real_of_int (loc ! 999) / 10000 \<and>
     prob ! 999 = 1 / (1 + exp (- 2 * (score ! 999 - 0.5))) \<and>
     defects =
       fst (rng_binomial counter_rng 1 prob 1000
             (snd (sample_metrics counter_rng (rng_seed counter_rng 42))))"
proof -
  from label_derivation [OF counter_rng_ok, of 0]
  obtain df g' loc v_g ev_g d defects score prob where
    h: "create_sample_data counter_rng 0 = Some (df, g')" "nrows df = 1000"
     "getitem df ''loc'' = Some loc" "getitem df ''v_g'' = Some v_g"
     "getitem df ''ev_g'' = Some ev_g" "getitem df ''d'' = Some d"
     "getitem df ''defects'' = Some defects"
     "length score = nrows df" "length prob = nrows df" "length defects = nrows df"
     "\<forall>i < nrows df. score ! i =
        real_of_int (v_g ! i) / 50 + real_of_int (ev_g ! i) / 100 +
        real_of_int (d ! i) / 100 + real_of_int (loc ! i) / 10000"
     "\<forall>i < nrows df. prob ! i = 1 / (1 + exp (- 2 * (score ! i - 0.5)))"
     "defects =
       fst (rng_binomial counter_rng 1 prob 1000
             (snd (sample_metrics counter_rng (rng_seed counter_rng 42))))"
    by blast
  have "(999::nat) < nrows df" using h(2) by simp
  with h(11,12) have
    "score ! 999 =
        real_of_int (v_g ! 999) / 50 + real_of_int (ev_g ! 999) / 100 +
        real_of_int (d ! 999) / 100 + real_of_int (loc ! 999) / 10000"
    "prob ! 999 = 1 / (1 + exp (- 2 * (score ! 999 - 0.5)))"
    by blast+
  with h(1-10,13) show ?thesis by blast
qed

subsection \<open>Determinism\<close>

text \<open>
  Claim C2. The generator seeds the pseudo-random state with 42 before it draws, so its
  result does not depend on the state it is called in: any two calls return the same
  table (and leave the same state). Hence two runs of the orchestrator, from whatever
  states, produce the same record, and the five datasets of a run are one and the same
  table.
\<close>

theorem generator_deterministic:
  "create_sample_data rng g = create_sample_data rng g' \<and>
   simulate_data_processing rng g = simulate_data_processing rng g' \<and>
   (\<forall>run. simulate_data_processing rng g = Some run \<longrightarrow>
      (\<exists>df. datasets run =
         [(''kc1'', df), (''kc2'', df), (''pc1'', df), (''pc2'', df), (''cm1'', df)]))"
proof (intro conjI allI impI)
  show "create_sample_data rng g = create_sample_data rng g'"
    by (rule create_sample_data_indep)
  show "simulate_data_processing rng g = simulate_data_processing rng g'"
    unfolding simulate_data_processing_def create_sample_data_indep [of rng g g'] ..
  show "\<exists>df. datasets run =
      [(''kc1'', df), (''kc2'', df), (''pc1'', df), (''pc2'', df), (''cm1'', df)]"
    if "simulate_data_processing rng g = Some run" for run
    using that by (rule simulate_datasets)
qed

theorem generator_deterministic_witness:
  "create_sample_data counter_rng 0 = create_sample_data counter_rng 7 \<and>
   simulate_data_processing counter_rng 0 = simulate_data_processing counter_rng 7 \<and>
   (\<exists>run df. simulate_data_processing counter_rng 0 = Some run \<and>
      datasets run =
        [(''kc1'', df), (''kc2'', df), (''pc1'', df), (''pc2'', df), (''cm1'', df)])"
  using generator_deterministic [of counter_rng 0 7]
    simulate_returns [OF counter_rng_ok, of 0]
  by blast

subsection \<open>Monotonicity of the probability\<close>

text \<open>
  Claim C9. Take two tables whose columns \<open>loc\<close>, \<open>v_g\<close>, \<open>ev_g\<close> and \<open>d\<close> all have one
  length, and a row \<open>i\<close>. If the second table has a larger value than the first in one of
  the four columns at row \<open>i\<close> and the same values in the other three, then the score
  arrays of both tables exist and the probability of row \<open>i\<close> is strictly larger in the
  second table. The arithmetic is that of the real numbers.
\<close>

theorem defect_prob_monotone:
  assumes g: "getitem data ''v_g'' = Some v_g" "getitem data ''ev_g'' = Some ev_g"
    "getitem data ''d'' = Some d" "getitem data ''loc'' = Some loc"
    and g': "getitem data' ''v_g'' = Some v_g'" "getitem data' ''ev_g'' = Some ev_g'"
    "getitem data' ''d'' = Some d'" "getitem data' ''loc'' = Some loc'"
    and l: "length v_g = k" "length ev_g = k" "length d = k" "length loc = k"
    and l': "length v_g' = k" "length ev_g' = k" "length d' = k" "length loc' = k"
    and i: "i < k"
    and up:
        "(loc ! i < loc' ! i \<and> v_g ! i = v_g' ! i \<and> ev_g ! i = ev_g' ! i \<and> d ! i = d' ! i) \<or>
         (loc ! i = loc' ! i \<and> v_g ! i < v_g' ! i \<and> ev_g ! i = ev_g' ! i \<and> d ! i = d' ! i) \<or>
         (loc ! i = loc' ! i \<and> v_g ! i = v_g' ! i \<and> ev_g ! i < ev_g' ! i \<and> d ! i = d' ! i) \<or>
         (loc ! i = loc' ! i \<and> v_g ! i = v_g' ! i \<and> ev_g ! i = ev_g' ! i \<and> d ! i < d' ! i)"
  shows "\<exists>s s'. complexity_score data = Some s \<and> complexity_score data' = Some s' \<and>
     i < length s \<and> i < length s' \<and> defect_prob s ! i < defect_prob s' ! i"
proof -
  let ?f = "\<lambda>(v_g::int list) (ev_g::int list) (d::int list) (loc::int list) i.
     real_of_int (v_g ! i) / 50 + real_of_int (ev_g ! i) / 100 +
     real_of_int (d ! i) / 100 + real_of_int (loc ! i) / 10000"
  have s: "complexity_score data = Some (map (?f v_g ev_g d loc) [0..<k])"
    by (rule complexity_score_eq [OF g l])
  have s': "complexity_score data' = Some (map (?f v_g' ev_g' d' loc') [0..<k])"
    by (rule complexity_score_eq [OF g' l'])
  from up have "?f v_g ev_g d loc i < ?f v_g' ev_g' d' loc' i"
    by auto
  then have "1 / (1 + exp (- 2 * (?f v_g ev_g d loc i - 0.5)))
      < 1 / (1 + exp (- 2 * (?f v_g' ev_g' d' loc' i - 0.5)))"
    by (rule logistic_strict_mono)
  with i show ?thesis
    unfolding s s' by (simp add: defect_prob_nth)
qed

theorem defect_prob_monotone_witness:
  "\<exists>s s'. complexity_score [(''loc'', [10, 20]), (''v_g'', [1, 2]), (''ev_g'', [3, 4]), (''d'', [5, 6])] = Some s \<and>
     complexity_score [(''loc'', [10, 21]), (''v_g'', [7, 2]), (''ev_g'', [3, 4]), (''d'', [5, 6])] = Some s' \<and>
     (1::nat) < length s \<and> 1 < length s' \<and> defect_prob s ! 1 < defect_prob s' ! 1"
  by (rule defect_prob_monotone [where k = 2 and loc = "[10, 20]" and loc' = "[10, 21]"
        and v_g = "[1, 2]" and v_g' = "[7, 2]" and ev_g = "[3, 4]" and ev_g' = "[3, 4]"
        and d = "[5, 6]" and d' = "[5, 6]"])
     (simp_all add: getitem_def)

subsection \<open>The probability reads four columns only\<close>

text \<open>
  Claim C10. The probability array is a function of the columns \<open>loc\<close>, \<open>v_g\<close>, \<open>ev_g\<close>
  and \<open>d\<close> alone: two tables that agree on these four lookups have the same probability
  array (or fail alike). In particular, replacing any other column, such as \<open>iv_g\<close>, by
  other values leaves every row's probability unchanged.
\<close>

theorem defect_prob_depends_on_four:
  assumes "getitem data' ''loc'' = getitem data ''loc''"
    and "getitem data' ''v_g'' = getitem data ''v_g''"
    and "getitem data' ''ev_g'' = getitem data ''ev_g''"
    and "getitem data' ''d'' = getitem data ''d''"
  shows "map_option defect_prob (complexity_score data') =
         map_option defect_prob (complexity_score data)"
  unfolding complexity_score_cong [OF assms] ..

theorem defect_prob_depends_on_four_witness:
  "map_option defect_prob
     (complexity_score
        (setitem [(''loc'', [10, 20]), (''v_g'', [1, 2]), (''ev_g'', [3, 4]), (''iv_g'', [5, 6]),
                  (''d'', [7, 8])] ''iv_g'' [29, 1])) =
   map_option defect_prob
     (complexity_score
        [(''loc'', [10, 20]), (''v_g'', [1, 2]), (''ev_g'', [3, 4]), (''iv_g'', [5, 6]),
         (''d'', [7, 8])])"
  by (rule defect_prob_depends_on_four) (simp_all add: getitem_setitem_other)

end
